theory Spec2Isabelle
  imports
    Complex_Main
    "HOL-Library.Sublist"
    "HOL-Library.Multiset"
    "HOL-Library.Char_ord"
    "HOL-Library.List_Lexorder"
begin

section \<open>async-s3: the command line module \<^verbatim>\<open>src/async_s3/main.py\<close>\<close>

text \<open>
  The functions of this section are translated from \<^verbatim>\<open>main.py\<close>. A Python \<^verbatim>\<open>str\<close> is a
  sequence of code points. Where a function only counts them (\<^verbatim>\<open>validate_delimiter\<close>) the
  code point type is a type parameter; where it looks for the ASCII characters of
  \<^verbatim>\<open>"s3://"\<close> and \<^verbatim>\<open>"/"\<close> the string is a \<^typ>\<open>string\<close>.
\<close>

subsection \<open>Errors raised through click\<close>

text \<open>
  \<^verbatim>\<open>click.BadParameter(message)\<close> is raised by the option callback,
  \<^verbatim>\<open>click.Abort()\<close> by \<^verbatim>\<open>error(message)\<close> after it has echoed the message; the
  echoed message is kept with the \<open>Abort\<close>. Any other exception leaves the function that
  received it unchanged (\<open>Raised\<close>).
\<close>

datatype py_exception = ClientError string | OtherException string

datatype click_failure = BadParameter string | Abort string | Raised py_exception

subsection \<open>\<^verbatim>\<open>validate_delimiter\<close>\<close>

text \<open>
  \<^verbatim>\<open>
  def validate_delimiter(ctx, param, value):
      if len(value) != 1:
          raise click.BadParameter("Delimiter must be exactly one character.")
      return value
  \<close>
  \<open>ctx\<close> and \<open>param\<close> are not read.
\<close>

definition validate_delimiter :: "'ctx \<Rightarrow> 'param \<Rightarrow> 'c list \<Rightarrow> click_failure + 'c list" where
  "validate_delimiter ctx param val =
     (if length val \<noteq> 1
      then Inl (BadParameter ''Delimiter must be exactly one character.'')
      else Inr val)"

subsection \<open>\<^verbatim>\<open>split_s3_url\<close>\<close>

definition S3PROTO :: string where
  "S3PROTO = ''s3://''"

text \<open>
  Python's \<^verbatim>\<open>s.split(sep, maxsplit)\<close> for a separator of one character: the string is cut
  at the first \<open>maxsplit\<close> occurrences of \<open>sep\<close>; the result is never empty
  (\<^verbatim>\<open>"".split("/", 1) == [""]\<close>).
\<close>

fun py_split :: "char \<Rightarrow> nat \<Rightarrow> string \<Rightarrow> string list" where
  "py_split sep n [] = [[]]"
| "py_split sep 0 (c # cs) = [c # cs]"
| "py_split sep (Suc n) (c # cs) =
     (if c = sep then [] # py_split sep n cs
      else (case py_split sep (Suc n) cs of
              [] \<Rightarrow> [[c]]
            | part # parts \<Rightarrow> (c # part) # parts))"

text \<open>
  \<^verbatim>\<open>
  def split_s3_url(s3_url):
      parts = s3_url[len(S3PROTO):].split("/", 1)
      return (parts[0], parts[1] if len(parts) > 1 else "")
  \<close>
  The slice drops the first five code points whatever they are. \<open>parts[0]\<close> always
  exists (lemma \<open>py_split_not_Nil\<close> below).
\<close>

definition split_s3_url :: "string \<Rightarrow> string \<times> string" where
  "split_s3_url s3_url =
     (let parts = py_split (CHR ''/'') 1 (drop (length S3PROTO) s3_url)
      in (parts ! 0, if length parts > 1 then parts ! 1 else ''''))"

subsection \<open>\<^verbatim>\<open>human_readable_size\<close>\<close>








subsection \<open>\<^verbatim>\<open>ListingConfig\<close>, \<^verbatim>\<open>list_objects_with_progress\<close> and \<^verbatim>\<open>list_objects_async\<close>\<close>

text \<open>
  An object of a listing is the dictionary that \<^verbatim>\<open>list_objects_v2\<close> returns; the code
  reads \<^verbatim>\<open>obj["Key"]\<close> and \<^verbatim>\<open>obj["Size"]\<close>.
\<close>

record ObjectRecord =
  Key :: string
  Size :: int

text \<open>
  \<^verbatim>\<open>
  @dataclass
  class ListingConfig:
      s3_url: str
      max_level: Optional[int] = None
      max_folders: Optional[int] = None
      delimiter: str = "/"
      parallelism: int = 100
      repeat: int = 1

      @property
      def bucket(self): return split_s3_url(self.s3_url)[0]
      @property
      def key(self): return split_s3_url(self.s3_url)[1]
  \<close>
\<close>

record ListingConfig =
  s3_url :: string
  max_level :: "int option"
  max_folders :: "int option"
  delimiter :: string
  parallelism :: int
  repeat :: int

definition bucket :: "ListingConfig \<Rightarrow> string" where
  "bucket config = fst (split_s3_url (s3_url config))"





text \<open>
  \<^verbatim>\<open>
  async def list_objects_with_progress(s3_list, config):
      start_time = time.time()
      result = []
      total_size = 0
      ...
      try:
          with Progress(...) as progress:
              ...
              async for objects_page in s3_list.iter(config.key, max_level=config.max_level,
                      max_folders=config.max_folders, delimiter=config.delimiter):
                  result.extend(objects_page)
                  page_objects_size = sum(obj["Size"] for obj in objects_page)
                  total_size += page_objects_size
                  ...
      except botocore.exceptions.ClientError as exc:
          error(f"Error: {exc}")
      end_time = time.time()
      duration = end_time - start_time
      return result, duration
  \<close>
  \<open>listing_progress\<close> holds the local variables \<open>result\<close> and \<open>total_size\<close>,
  \<open>consume_page\<close> is the body of the loop and \<open>consume_stream\<close> the loop. The progress
  bars and the clock do not change what is returned or raised and are left out, and so is
  \<open>duration\<close>. The text of a \<open>ClientError\<close> is its \<^verbatim>\<open>str(exc)\<close>.
\<close>

record listing_progress =
  result :: "ObjectRecord list"
  total_size :: int

definition consume_page :: "listing_progress \<Rightarrow> ObjectRecord list \<Rightarrow> listing_progress" where
  "consume_page st objects_page =
     st\<lparr>result := result st @ objects_page,
        total_size := total_size st + sum_list (map Size objects_page)\<rparr>"





section \<open>async-s3: grouping sibling prefixes (\<^verbatim>\<open>async_s3/group_by_prefix.py\<close>)\<close>

text \<open>
  The module \<^verbatim>\<open>async_s3/group_by_prefix.py\<close> is imported by the tests
  (\<^verbatim>\<open>from async_s3.group_by_prefix import find_longest_common_prefix\<close>) but is not among
  the source files. Its two functions are modelled from the specification, section 4.2.
\<close>

text \<open>
  Modelled from the spec: \<^verbatim>\<open>find_longest_common_prefix\<close> (the spec's
  \<open>longestCommonPrefix\<close>), whose source is missing. Section 4.2: "the longest string that
  is a prefix of every element; returns the empty string for an empty input or when no
  non-empty common prefix exists; returns the single element unchanged for a singleton
  input". The common prefix of two strings is \<^const>\<open>longest_common_prefix\<close> of the
  library.
\<close>

fun find_longest_common_prefix :: "string list \<Rightarrow> string" where
  "find_longest_common_prefix [] = []"
| "find_longest_common_prefix [w] = w"
| "find_longest_common_prefix (w # ws) =
     longest_common_prefix w (find_longest_common_prefix ws)"











section \<open>async-s3: the crawler (\<^verbatim>\<open>async_s3/s3_bucket_objects.py\<close>)\<close>

text \<open>
  The class \<^verbatim>\<open>S3BucketObjects\<close> is imported by \<^verbatim>\<open>main.py\<close> and by the tests but is not
  among the source files. For the claim about what a crawl emits, the listing client and
  the crawler are modelled from the specification, sections 2, 4.3 and 6.
\<close>












section \<open>Properties of \<^verbatim>\<open>main.py\<close>\<close>

subsection \<open>Delimiter validation\<close>

text \<open>
  Claim C8. For every delimiter whose length is not exactly one character the validation
  raises \<open>BadParameter\<close>; for every delimiter of one character it returns the delimiter
  unchanged.
\<close>

theorem validate_delimiter_one_char:
  "(length val \<noteq> 1 \<longrightarrow> (\<exists>msg. validate_delimiter ctx param val = Inl (BadParameter msg))) \<and>
   (length val = 1 \<longrightarrow> validate_delimiter ctx param val = Inr val)"
  by (simp add: validate_delimiter_def)

theorem validate_delimiter_one_char_witness:
  "(\<exists>msg. validate_delimiter () () ''ab'' = Inl (BadParameter msg)) \<and>
   (\<exists>msg. validate_delimiter () () '''' = Inl (BadParameter msg)) \<and>
   validate_delimiter () () ''/'' = Inr ''/''"
  using validate_delimiter_one_char [of "''ab''" "()" "()"]
    validate_delimiter_one_char [of "''''" "()" "()"]
    validate_delimiter_one_char [of "''/''" "()" "()"]
  by simp

subsection \<open>Splitting an S3 URL\<close>

lemma py_split_not_Nil: "py_split sep n s \<noteq> []"
  by (induction sep n s rule: py_split.induct) (auto split: list.splits)

lemma py_split_once_no_sep:
  "sep \<notin> set s \<Longrightarrow> py_split sep (Suc 0) s = [s]"
  by (induction s) auto

lemma py_split_once_at_first:
  "sep \<notin> set a \<Longrightarrow> py_split sep (Suc 0) (a @ sep # b) = [a, b]"
proof (induction a)
  case Nil
  show ?case by (cases b) simp_all
next
  case (Cons c a)
  then show ?case by auto
qed

text \<open>
  Claim C9. For every string \<^verbatim>\<open>"s3://" + rest\<close>, \<open>split_s3_url\<close> returns the part of
  \<open>rest\<close> before its first \<^verbatim>\<open>"/"\<close> and the part after it; when \<open>rest\<close> holds no
  \<^verbatim>\<open>"/"\<close> it returns all of \<open>rest\<close> and the empty string.
\<close>

theorem split_s3_url_bucket_key:
  "(rest = a @ ''/'' @ b \<and> CHR ''/'' \<notin> set a \<longrightarrow>
      split_s3_url (''s3://'' @ rest) = (a, b)) \<and>
   (CHR ''/'' \<notin> set rest \<longrightarrow> split_s3_url (''s3://'' @ rest) = (rest, ''''))"
proof (intro conjI impI)
  assume h: "rest = a @ ''/'' @ b \<and> CHR ''/'' \<notin> set a"
  then have "py_split (CHR ''/'') (Suc 0) rest = [a, b]"
    using py_split_once_at_first [of "CHR ''/''" a b] by simp
  then show "split_s3_url (''s3://'' @ rest) = (a, b)"
    by (simp add: split_s3_url_def S3PROTO_def)
next
  assume "CHR ''/'' \<notin> set rest"
  then have "py_split (CHR ''/'') (Suc 0) rest = [rest]"
    by (rule py_split_once_no_sep)
  then show "split_s3_url (''s3://'' @ rest) = (rest, '''')"
    by (simp add: split_s3_url_def S3PROTO_def)
qed

theorem split_s3_url_bucket_key_witness:
  "split_s3_url ''s3://my-bucket/path/to/object'' = (''my-bucket'', ''path/to/object'') \<and>
   split_s3_url ''s3://my-bucket/'' = (''my-bucket'', '''') \<and>
   split_s3_url ''s3://my-bucket'' = (''my-bucket'', '''')"
  using split_s3_url_bucket_key
      [of "''my-bucket/path/to/object''" "''my-bucket''" "''path/to/object''"]
    split_s3_url_bucket_key [of "''my-bucket/''" "''my-bucket''" "''''"]
    split_s3_url_bucket_key [of "''my-bucket''" "''''" "''''"]
  by simp

subsection \<open>Human readable sizes\<close>













subsection \<open>Errors of the listing reach the caller\<close>


lemma total_size_foldl_consume_page:
  "total_size (foldl consume_page st pages) = total_size st + sum_list (map Size (concat pages))"
  by (induction pages arbitrary: st) (simp_all add: consume_page_def)







section \<open>Properties of the grouping functions\<close>

subsection \<open>Longest common prefix\<close>

lemma find_longest_common_prefix_is_prefix:
  "s \<in> set ws \<Longrightarrow> prefix (find_longest_common_prefix ws) s"
proof (induction ws arbitrary: s rule: find_longest_common_prefix.induct)
  case 1
  then show ?case by simp
next
  case (2 w)
  then show ?case by simp
next
  case (3 w v vs)
  show ?case
  proof (cases "s = w")
    case True
    then show ?thesis by (simp add: longest_common_prefix_prefix1)
  next
    case False
    with 3(2) have "s \<in> set (v # vs)" by simp
    then have "prefix (find_longest_common_prefix (v # vs)) s" by (rule 3(1))
    moreover have "prefix (find_longest_common_prefix (w # v # vs))
        (find_longest_common_prefix (v # vs))"
      by (simp add: longest_common_prefix_prefix2)
    ultimately show ?thesis using prefix_order.order_trans by blast
  qed
qed

lemma find_longest_common_prefix_greatest:
  "ws \<noteq> [] \<Longrightarrow> (\<And>s. s \<in> set ws \<Longrightarrow> prefix p s) \<Longrightarrow>
   prefix p (find_longest_common_prefix ws)"
proof (induction ws rule: find_longest_common_prefix.induct)
  case 1
  then show ?case by simp
next
  case (2 w)
  then show ?case by simp
next
  case (3 w v vs)
  have "prefix p (find_longest_common_prefix (v # vs))"
    using 3 by simp
  moreover have "prefix p w" using 3(3) by simp
  ultimately show ?case by (simp add: longest_common_prefix_max_prefix)
qed

text \<open>
  Claim C7. \<open>find_longest_common_prefix\<close> returns the empty string for the empty
  sequence, the single element for a singleton, and the empty string when the strings of
  a non-empty sequence share no non-empty prefix. Its result is a prefix of every element
  and every common prefix of a non-empty sequence is a prefix of it. The four examples of
  the tests hold.
\<close>

theorem find_longest_common_prefix_cases:
  "find_longest_common_prefix [] = [] \<and>
   find_longest_common_prefix [w] = w \<and>
   (ws \<noteq> [] \<and> (\<forall>p. (\<forall>s\<in>set ws. prefix p s) \<longrightarrow> p = []) \<longrightarrow>
      find_longest_common_prefix ws = []) \<and>
   (\<forall>s\<in>set ws. prefix (find_longest_common_prefix ws) s) \<and>
   (ws \<noteq> [] \<and> (\<forall>s\<in>set ws. prefix p s) \<longrightarrow> prefix p (find_longest_common_prefix ws)) \<and>
   find_longest_common_prefix [''hello''] = ''hello'' \<and>
   find_longest_common_prefix [''apple'', ''banana'', ''cherry''] = [] \<and>
   find_longest_common_prefix [''test'', ''test'', ''test''] = ''test''"
proof (intro conjI impI ballI)
  assume h: "ws \<noteq> [] \<and> (\<forall>p. (\<forall>s\<in>set ws. prefix p s) \<longrightarrow> p = [])"
  have "\<forall>s\<in>set ws. prefix (find_longest_common_prefix ws) s"
    by (simp add: find_longest_common_prefix_is_prefix)
  with h show "find_longest_common_prefix ws = []" by blast
next
  fix s assume "s \<in> set ws"
  then show "prefix (find_longest_common_prefix ws) s"
    by (rule find_longest_common_prefix_is_prefix)
next
  assume "ws \<noteq> [] \<and> (\<forall>s\<in>set ws. prefix p s)"
  then show "prefix p (find_longest_common_prefix ws)"
    using find_longest_common_prefix_greatest [of ws p] by blast
qed simp_all

theorem find_longest_common_prefix_cases_witness:
  "find_longest_common_prefix [''apple'', ''banana''] = [] \<and>
   prefix (find_longest_common_prefix [''logs/2021/'', ''logs/2022/'']) ''logs/2022/'' \<and>
   prefix ''logs/'' (find_longest_common_prefix [''logs/2021/'', ''logs/2022/''])"
proof -
  have none: "(\<forall>s\<in>set [''apple'', ''banana'']. prefix p s) \<longrightarrow> p = []" for p
    by (cases p) auto
  show ?thesis
    using find_longest_common_prefix_cases [of "''x''" "[''apple'', ''banana'']" "[]"]
      find_longest_common_prefix_cases [of "''x''" "[''logs/2021/'', ''logs/2022/'']" "''logs/''"]
      none
    by simp
qed

subsection \<open>Grouping sibling prefixes\<close>

















section \<open>Properties of the crawler\<close>

subsection \<open>The listing of a store\<close>








subsection \<open>Splitting a list by the value of a function\<close>





subsection \<open>What a crawl emits\<close>









end
